theory Spec2Isabelle
  imports Main "HOL-Library.Word"
begin

unbundle bit_operations_syntax

section \<open>Data model of \<^verbatim>\<open>users/auth.go\<close>\<close>

text \<open>
  Go strings are byte sequences: they are modelled as \<^typ>\<open>string\<close> (a list of 8-bit
  characters), and \<^verbatim>\<open>[]byte\<close> as a list of 8-bit words. The conversions
  \<^verbatim>\<open>[]byte(s)\<close> and \<^verbatim>\<open>string(b)\<close> keep every byte.
  \<^verbatim>\<open>int64\<close> is a 64-bit word read in two's complement; Go's \<^verbatim>\<open>int\<close>
  is taken at its 64-bit width.
\<close>

type_synonym byte = "8 word"
type_synonym bytes = "byte list"
type_synonym int64 = "64 word"
type_synonym go_int = "64 word"

definition bytes_of :: "string \<Rightarrow> bytes" where
  "bytes_of s = map (\<lambda>c. of_char c) s"

definition string_of :: "bytes \<Rightarrow> string" where
  "string_of b = map (\<lambda>w. char_of (unat w)) b"

text \<open>
  Go errors. \<^verbatim>\<open>errors.New\<close> and \<^verbatim>\<open>fmt.Errorf\<close> values are identified by
  their message. \<open>ValidationError\<close> is jwt-go's error struct: its text, the wrapped
  inner error and the bits of its \<^verbatim>\<open>Errors\<close> mask, kept as a set of flags.
  \<open>InvalidCostError\<close>, \<open>InvalidHashPrefixError\<close> and \<open>HashVersionTooNewError\<close> are the typed
  errors of the bcrypt package, \<open>NumError\<close> the syntax error of \<^verbatim>\<open>strconv.Atoi\<close> on
  the given input.
\<close>

datatype verr_flag =
    ValidationErrorMalformed
  | ValidationErrorUnverifiable
  | ValidationErrorSignatureInvalid
  | ValidationErrorAudience
  | ValidationErrorExpired
  | ValidationErrorIssuedAt
  | ValidationErrorIssuer
  | ValidationErrorNotValidYet
  | ValidationErrorId
  | ValidationErrorClaimsInvalid

datatype error =
    ErrorString string
  | ValidationError (vtext: string) (Inner: "error option") (Errors: "verr_flag set")
  | InvalidCostError int
  | InvalidHashPrefixError byte
  | HashVersionTooNewError byte
  | NumError string

text \<open>The package variables set by \<^verbatim>\<open>init\<close> from the loaded configuration.\<close>

record config =
  bCryptCost :: nat
  jwtIssuer :: string
  jwtSecret :: bytes

text \<open>
  \<^verbatim>\<open>User\<close> is declared elsewhere in the package; \<^verbatim>\<open>auth.go\<close> reads its
  \<^verbatim>\<open>Id\<close> field only. The zero value \<^verbatim>\<open>var user User\<close> has \<^verbatim>\<open>Id\<close> 0.
\<close>

record User =
  Id' :: go_int

definition zero_User :: User where
  "zero_User = \<lparr>Id' = 0\<rparr>"

text \<open>
  \<^verbatim>\<open>jwt.StandardClaims\<close>, embedded in \<^verbatim>\<open>jwtClaims\<close>. Its \<^verbatim>\<open>Subject\<close>,
  \<^verbatim>\<open>Issuer\<close>, \<^verbatim>\<open>NotBefore\<close> and \<^verbatim>\<open>ExpiresAt\<close> are distinct from the
  four fields \<^verbatim>\<open>jwtClaims\<close> declares itself.
\<close>

record StandardClaims =
  StdAudience :: string
  StdExpiresAt :: int64
  StdId :: string
  StdIssuedAt :: int64
  StdIssuer :: string
  StdNotBefore :: int64
  StdSubject :: string

definition zero_StandardClaims :: StandardClaims where
  "zero_StandardClaims =
     \<lparr>StdAudience = [], StdExpiresAt = 0, StdId = [], StdIssuedAt = 0, StdIssuer = [],
      StdNotBefore = 0, StdSubject = []\<rparr>"

record jwtClaims =
  Issuer :: string
  NotBefore :: int64
  Expires :: int64
  Subject :: go_int
  Standard :: StandardClaims

text \<open>
  The interface values of a \<^verbatim>\<open>jwt.Token\<close>, by dynamic type. \<open>SigningMethodHMAC\<close>,
  \<open>SigningMethodRSA\<close>, \<open>SigningMethodRSAPSS\<close> and \<open>SigningMethodECDSA\<close> carry the name and the
  hash of the method; \<open>SigningMethodNone\<close> is the method registered for \<^verbatim>\<open>"none"\<close>.
  A claims value is the \<^verbatim>\<open>*jwtClaims\<close> handed to the parser, or of another type.
  A header value is a JSON string, or another JSON value given by its \<^verbatim>\<open>%v\<close> rendering.
\<close>

datatype hash = SHA256 | SHA384 | SHA512

datatype SigningMethod =
    SigningMethodHMAC string hash
  | SigningMethodRSA string hash
  | SigningMethodRSAPSS string hash
  | SigningMethodECDSA string hash
  | SigningMethodNone

datatype Claims = JwtClaimsPtr jwtClaims | OtherClaims

datatype hval = HString string | HOther string

type_synonym header = "string \<rightharpoonup> hval"

record Token =
  Raw :: string
  Method :: "SigningMethod option"
  Header :: header
  Claims :: Claims
  Signature :: string
  Valid :: bool

section \<open>The libraries \<^verbatim>\<open>auth.go\<close> calls\<close>

text \<open>
  The primitives of the Go standard library that jwt-go builds on are parameters of the
  model: the base64url segment codec (\<^verbatim>\<open>jwt.EncodeSegment\<close>, \<^verbatim>\<open>jwt.DecodeSegment\<close>),
  \<^verbatim>\<open>encoding/json\<close> on token headers and on \<^verbatim>\<open>jwtClaims\<close>, and the hash functions
  behind \<^verbatim>\<open>crypto.Hash\<close>.
\<close>

record lib =
  EncodeSegment :: "bytes \<Rightarrow> string"
  DecodeSegment :: "string \<Rightarrow> error + bytes"
  json_Marshal_header :: "header \<Rightarrow> bytes"
  json_Unmarshal_header :: "bytes \<Rightarrow> error + header"
  json_Marshal_claims :: "jwtClaims \<Rightarrow> bytes"
  json_Unmarshal_claims :: "bytes \<Rightarrow> error + jwtClaims"
  hash_Available :: "hash \<Rightarrow> bool"
  hash_Sum :: "hash \<Rightarrow> bytes \<Rightarrow> bytes"

text \<open>
  What the callers of the segment codec rely on, for one byte sequence: its encoding holds
  no \<^verbatim>\<open>.\<close> (the base64url alphabet has none) and decodes back to it.
\<close>

definition segment_ok :: "lib \<Rightarrow> bytes \<Rightarrow> bool" where
  "segment_ok l b \<longleftrightarrow>
     CHR ''.'' \<notin> set (EncodeSegment l b) \<and> DecodeSegment l (EncodeSegment l b) = Inr b"

subsection \<open>\<^verbatim>\<open>crypto/hmac\<close>\<close>

fun BlockSize :: "hash \<Rightarrow> nat" where
  "BlockSize SHA256 = 64"
| "BlockSize SHA384 = 128"
| "BlockSize SHA512 = 128"

text \<open>
  \<^verbatim>\<open>hmac.New\<close> hashes a key longer than the block size, copies the key into a zeroed
  block, and xors the block with \<^verbatim>\<open>0x36\<close> and \<^verbatim>\<open>0x5c\<close>.
\<close>

definition hmac_block :: "lib \<Rightarrow> hash \<Rightarrow> bytes \<Rightarrow> bytes" where
  "hmac_block l h key =
     (let k = (if length key > BlockSize h then hash_Sum l h key else key)
      in take (BlockSize h) (k @ replicate (BlockSize h - length k) 0))"

definition hmac_Sum :: "lib \<Rightarrow> hash \<Rightarrow> bytes \<Rightarrow> bytes \<Rightarrow> bytes" where
  "hmac_Sum l h key msg =
     (let ipad = map (\<lambda>b. b XOR 0x36) (hmac_block l h key);
          opad = map (\<lambda>b. b XOR 0x5c) (hmac_block l h key)
      in hash_Sum l h (opad @ hash_Sum l h (ipad @ msg)))"



subsection \<open>jwt-go: signing methods\<close>

definition ErrSignatureInvalid :: error where
  "ErrSignatureInvalid = ErrorString ''signature is invalid''"

definition ErrHashUnavailable :: error where
  "ErrHashUnavailable = ErrorString ''the requested hash function is unavailable''"

definition ErrInvalidKeyType :: error where
  "ErrInvalidKeyType = ErrorString ''key is of invalid type''"

definition NoneSignatureTypeDisallowedError :: error where
  "NoneSignatureTypeDisallowedError =
     ValidationError ''(\"none\") signature type is not allowed'' None
       {ValidationErrorSignatureInvalid}"

definition signingMethods :: "(string \<times> SigningMethod) list" where
  "signingMethods =
     [(''HS256'', SigningMethodHMAC ''HS256'' SHA256),
      (''HS384'', SigningMethodHMAC ''HS384'' SHA384),
      (''HS512'', SigningMethodHMAC ''HS512'' SHA512),
      (''RS256'', SigningMethodRSA ''RS256'' SHA256),
      (''RS384'', SigningMethodRSA ''RS384'' SHA384),
      (''RS512'', SigningMethodRSA ''RS512'' SHA512),
      (''PS256'', SigningMethodRSAPSS ''PS256'' SHA256),
      (''PS384'', SigningMethodRSAPSS ''PS384'' SHA384),
      (''PS512'', SigningMethodRSAPSS ''PS512'' SHA512),
      (''ES256'', SigningMethodECDSA ''ES256'' SHA256),
      (''ES384'', SigningMethodECDSA ''ES384'' SHA384),
      (''ES512'', SigningMethodECDSA ''ES512'' SHA512),
      (''none'', SigningMethodNone)]"

definition GetSigningMethod :: "string \<Rightarrow> SigningMethod option" where
  "GetSigningMethod alg = map_of signingMethods alg"

fun Alg :: "SigningMethod \<Rightarrow> string" where
  "Alg (SigningMethodHMAC n _) = n"
| "Alg (SigningMethodRSA n _) = n"
| "Alg (SigningMethodRSAPSS n _) = n"
| "Alg (SigningMethodECDSA n _) = n"
| "Alg SigningMethodNone = ''none''"

text \<open>
  \<^verbatim>\<open>Method.Sign\<close> and \<^verbatim>\<open>Method.Verify\<close> with a key of type \<^verbatim>\<open>[]byte\<close>, the only
  type of key \<^verbatim>\<open>auth.go\<close> supplies. The HMAC methods recompute the MAC and compare; the
  asymmetric methods and \<^verbatim>\<open>none\<close> refuse a byte-slice key.
\<close>

fun Sign :: "lib \<Rightarrow> SigningMethod \<Rightarrow> string \<Rightarrow> bytes \<Rightarrow> error + string" where
  "Sign l (SigningMethodHMAC n h) signingString key =
     (if \<not> hash_Available l h then Inl ErrHashUnavailable
      else Inr (EncodeSegment l (hmac_Sum l h key (bytes_of signingString))))"
| "Sign l SigningMethodNone signingString key = Inl NoneSignatureTypeDisallowedError"
| "Sign l _ signingString key = Inl ErrInvalidKeyType"

fun Verify :: "lib \<Rightarrow> SigningMethod \<Rightarrow> string \<Rightarrow> string \<Rightarrow> bytes \<Rightarrow> error option" where
  "Verify l (SigningMethodHMAC n h) signingString signature key =
     (case DecodeSegment l signature of
        Inl err \<Rightarrow> Some err
      | Inr sig \<Rightarrow>
          if \<not> hash_Available l h then Some ErrHashUnavailable
          else if sig \<noteq> hmac_Sum l h key (bytes_of signingString) then Some ErrSignatureInvalid
          else None)"
| "Verify l SigningMethodNone signingString signature key =
     Some NoneSignatureTypeDisallowedError"
| "Verify l _ signingString signature key = Some ErrInvalidKeyType"

subsection \<open>jwt-go: tokens\<close>

text \<open>\<^verbatim>\<open>strings.Split(s, ".")\<close> and \<^verbatim>\<open>strings.Join(parts, ".")\<close>.\<close>

fun split_dot :: "string \<Rightarrow> string list" where
  "split_dot [] = [[]]"
| "split_dot (c # cs) =
     (if c = CHR ''.'' then [] # split_dot cs
      else (case split_dot cs of p # ps \<Rightarrow> (c # p) # ps | [] \<Rightarrow> [[c]]))"

fun join_dot :: "string list \<Rightarrow> string" where
  "join_dot [] = []"
| "join_dot [p] = p"
| "join_dot (p # ps) = p @ CHR ''.'' # join_dot ps"

text \<open>\<^verbatim>\<open>jwt.NewWithClaims\<close>: a token with the header \<^verbatim>\<open>{"typ": "JWT", "alg": method.Alg()}\<close>.\<close>

definition NewWithClaims :: "SigningMethod \<Rightarrow> jwtClaims \<Rightarrow> Token" where
  "NewWithClaims method claims =
     \<lparr>Raw = [], Method = Some method,
      Header = [''typ'' \<mapsto> HString ''JWT'', ''alg'' \<mapsto> HString (Alg method)],
      Claims = JwtClaimsPtr claims, Signature = [], Valid = False\<rparr>"

text \<open>
  \<^verbatim>\<open>Token.SigningString\<close> and \<^verbatim>\<open>Token.SignedString\<close>. Marshalling the header map and a
  \<^verbatim>\<open>jwtClaims\<close> (strings and integers) does not fail.
\<close>

definition SigningString :: "lib \<Rightarrow> header \<Rightarrow> jwtClaims \<Rightarrow> string" where
  "SigningString l hdr c =
     join_dot [EncodeSegment l (json_Marshal_header l hdr),
               EncodeSegment l (json_Marshal_claims l c)]"

definition SignedString :: "lib \<Rightarrow> SigningMethod \<Rightarrow> header \<Rightarrow> jwtClaims \<Rightarrow> bytes \<Rightarrow> error + string" where
  "SignedString l method hdr c key =
     (let sstr = SigningString l hdr c in
      case Sign l method sstr key of
        Inl err \<Rightarrow> Inl err
      | Inr sig \<Rightarrow> Inr (join_dot [sstr, sig]))"

text \<open>
  \<^verbatim>\<open>StandardClaims.Valid\<close>, which \<^verbatim>\<open>jwtClaims\<close> inherits from the embedded struct: it
  reads the clock (\<open>now\<close>) and checks the embedded \<^verbatim>\<open>ExpiresAt\<close>, \<^verbatim>\<open>IssuedAt\<close> and
  \<^verbatim>\<open>NotBefore\<close>, each only when it is not 0. The inner error is the last one set.
\<close>

definition StandardClaims_Valid :: "int64 \<Rightarrow> StandardClaims \<Rightarrow> error option" where
  "StandardClaims_Valid now c =
     (let e1 = (StdExpiresAt c \<noteq> 0 \<and> \<not> now \<le>s StdExpiresAt c);
          e2 = (StdIssuedAt c \<noteq> 0 \<and> \<not> StdIssuedAt c \<le>s now);
          e3 = (StdNotBefore c \<noteq> 0 \<and> \<not> StdNotBefore c \<le>s now);
          flags = (if e1 then {ValidationErrorExpired} else {})
                \<union> (if e2 then {ValidationErrorIssuedAt} else {})
                \<union> (if e3 then {ValidationErrorNotValidYet} else {});
          inner = (if e3 then ErrorString ''token is not valid yet''
                   else if e2 then ErrorString ''Token used before issued''
                   else ErrorString ''token is expired'')
      in if flags = {} then None else Some (ValidationError [] (Some inner) flags))"

text \<open>
  \<^verbatim>\<open>Parser.ParseWithClaims\<close> with the default parser. In order: three segments; the header
  and the claims decode; the header's \<^verbatim>\<open>alg\<close> is a string naming a registered method; the
  key function returns a key; the claims' own \<^verbatim>\<open>Valid\<close>; the signature. The caller in
  \<^verbatim>\<open>auth.go\<close> reads the token only when the error is nil, so the result is the error or
  the token.
\<close>

definition ParseWithClaims ::
  "lib \<Rightarrow> int64 \<Rightarrow> string \<Rightarrow> (Token \<Rightarrow> error + bytes) \<Rightarrow> error + Token" where
  "ParseWithClaims l now tokenString keyFunc =
     (case split_dot tokenString of
        [p0, p1, p2] \<Rightarrow>
          (case DecodeSegment l p0 of
             Inl err \<Rightarrow> Inl (ValidationError [] (Some err) {ValidationErrorMalformed})
           | Inr headerBytes \<Rightarrow>
          (case json_Unmarshal_header l headerBytes of
             Inl err \<Rightarrow> Inl (ValidationError [] (Some err) {ValidationErrorMalformed})
           | Inr hdr \<Rightarrow>
          (case DecodeSegment l p1 of
             Inl err \<Rightarrow> Inl (ValidationError [] (Some err) {ValidationErrorMalformed})
           | Inr claimBytes \<Rightarrow>
          (case json_Unmarshal_claims l claimBytes of
             Inl err \<Rightarrow> Inl (ValidationError [] (Some err) {ValidationErrorMalformed})
           | Inr c \<Rightarrow>
          (case hdr ''alg'' of
             Some (HString alg) \<Rightarrow>
               (case GetSigningMethod alg of
                  None \<Rightarrow> Inl (ValidationError ''signing method (alg) is unavailable.'' None
                              {ValidationErrorUnverifiable})
                | Some method \<Rightarrow>
                    (let token = \<lparr>Raw = tokenString, Method = Some method, Header = hdr,
                                  Claims = JwtClaimsPtr c, Signature = [], Valid = False\<rparr>
                     in case keyFunc token of
                          Inl err \<Rightarrow>
                            (case err of
                               ValidationError t i f \<Rightarrow> Inl err
                             | _ \<Rightarrow> Inl (ValidationError [] (Some err) {ValidationErrorUnverifiable}))
                        | Inr key \<Rightarrow>
                            (let vErr = (case StandardClaims_Valid now (Standard c) of
                                           None \<Rightarrow> ValidationError [] None {}
                                         | Some e \<Rightarrow> e);
                                 vErr' = (case Verify l method (join_dot [p0, p1]) p2 key of
                                            None \<Rightarrow> vErr
                                          | Some err \<Rightarrow>
                                              ValidationError (vtext vErr) (Some err)
                                                (insert ValidationErrorSignatureInvalid (Errors vErr)))
                             in if Errors vErr' = {}
                                then Inr (token\<lparr>Signature := p2, Valid := True\<rparr>)
                                else Inl vErr')))
           | _ \<Rightarrow> Inl (ValidationError ''signing method (alg) is unspecified.'' None
                       {ValidationErrorUnverifiable}))))))
      | _ \<Rightarrow> Inl (ValidationError ''token contains an invalid number of segments'' None
                  {ValidationErrorMalformed}))"

subsection \<open>bcrypt\<close>























section \<open>\<^verbatim>\<open>users/auth.go\<close>\<close>



text \<open>
  \<^verbatim>\<open>generateToken\<close> reads the clock twice, once for each bound; \<open>t1\<close> and \<open>t2\<close> are the
  two readings as Unix seconds. \<^verbatim>\<open>time.Now().Add(d).Unix()\<close> is the reading plus the
  whole seconds of \<open>d\<close>: one hour is 3600 seconds, sixty days are 5184000.
\<close>

definition newClaims :: "config \<Rightarrow> int64 \<Rightarrow> int64 \<Rightarrow> User \<Rightarrow> jwtClaims" where
  "newClaims cfg t1 t2 user =
     \<lparr>Issuer = jwtIssuer cfg,
      NotBefore = t1 - 3600,
      Expires = t2 + 5184000,
      Subject = Id' user,
      Standard = zero_StandardClaims\<rparr>"

definition generateToken :: "lib \<Rightarrow> config \<Rightarrow> int64 \<Rightarrow> int64 \<Rightarrow> User \<Rightarrow> error + string" where
  "generateToken l cfg t1 t2 user =
     (let token = NewWithClaims (SigningMethodHMAC ''HS256'' SHA256) (newClaims cfg t1 t2 user)
      in SignedString l (SigningMethodHMAC ''HS256'' SHA256) (Header token)
           (newClaims cfg t1 t2 user) (jwtSecret cfg))"

text \<open>\<^verbatim>\<open>%v\<close> of \<^verbatim>\<open>token.Header["alg"]\<close>.\<close>

fun fmt_v :: "hval option \<Rightarrow> string" where
  "fmt_v None = ''<nil>''"
| "fmt_v (Some (HString s)) = s"
| "fmt_v (Some (HOther s)) = s"

definition getTokenSigningKey :: "config \<Rightarrow> Token \<Rightarrow> error + bytes" where
  "getTokenSigningKey cfg token =
     (case Method token of
        Some (SigningMethodHMAC n h) \<Rightarrow> Inr (jwtSecret cfg)
      | _ \<Rightarrow> Inl (ErrorString (''Unexpected signing method: '' @ fmt_v (Header token ''alg'') @ ''.'')))"

definition areClaimsValid :: "config \<Rightarrow> int64 \<Rightarrow> jwtClaims \<Rightarrow> bool" where
  "areClaimsValid cfg now claims \<longleftrightarrow>
     Issuer claims = jwtIssuer cfg \<and> NotBefore claims \<le>s now \<and> now <s Expires claims"

text \<open>
  \<^verbatim>\<open>testToken\<close>, lines 80 to 92, on the result of \<^verbatim>\<open>jwt.ParseWithClaims\<close>.
  \<open>GetUserWithId\<close> is the lookup of the package on \<^verbatim>\<open>db.Db\<close>; \<open>now\<close> is the clock
  reading of \<^verbatim>\<open>areClaimsValid\<close>.
\<close>

definition testToken_parsed ::
  "config \<Rightarrow> (go_int \<Rightarrow> User \<times> error option) \<Rightarrow> int64 \<Rightarrow> error + Token \<Rightarrow> User \<times> error option" where
  "testToken_parsed cfg GetUserWithId now parsed =
     (case parsed of
        Inl err \<Rightarrow> (zero_User, Some err)
      | Inr token \<Rightarrow>
          (case Claims token of
             JwtClaimsPtr claims \<Rightarrow>
               if Valid token then
                 (if areClaimsValid cfg now claims
                  then GetUserWithId (Subject claims)
                  else (zero_User, Some (ErrorString ''Claims are invalid.'')))
               else (zero_User, Some (ErrorString ''Failed to read token.''))
           | OtherClaims \<Rightarrow> (zero_User, Some (ErrorString ''Failed to read token.''))))"

text \<open>
  \<^verbatim>\<open>testToken\<close>. \<open>tp\<close> is the clock reading inside the parser, \<open>now\<close> the later one of
  \<^verbatim>\<open>areClaimsValid\<close>.
\<close>

definition testToken ::
  "lib \<Rightarrow> config \<Rightarrow> (go_int \<Rightarrow> User \<times> error option) \<Rightarrow> int64 \<Rightarrow> int64 \<Rightarrow> string
     \<Rightarrow> User \<times> error option" where
  "testToken l cfg GetUserWithId tp now tokenString =
     testToken_parsed cfg GetUserWithId now
       (ParseWithClaims l tp tokenString (getTokenSigningKey cfg))"

section \<open>A small instance of the library parameters\<close>

text \<open>
  An instance of the parameters on which the definitions above can be evaluated: segments
  are written byte for byte, a header is written as its \<^verbatim>\<open>alg\<close>, claims are written
  through a table of five claim sets, and the hash of a message is one letter computed from
  the sum of its bytes.
\<close>

definition demo_cfg :: config where
  "demo_cfg = \<lparr>bCryptCost = 10, jwtIssuer = ''trackit'', jwtSecret = [107, 101, 121]\<rparr>"

definition demo_user :: User where
  "demo_user = \<lparr>Id' = 42\<rparr>"

definition demo_table :: "(bytes \<times> jwtClaims) list" where
  "demo_table =
     [([65], newClaims demo_cfg 1500000000 1500000000 demo_user),
      ([66], \<lparr>Issuer = ''other'', NotBefore = 1499996400, Expires = 1505184000,
              Subject = 42, Standard = zero_StandardClaims\<rparr>),
      ([67], \<lparr>Issuer = ''trackit'', NotBefore = 1600000000, Expires = 1605184000,
              Subject = 42, Standard = zero_StandardClaims\<rparr>),
      ([68], \<lparr>Issuer = ''trackit'', NotBefore = 1399996400, Expires = 1405184000,
              Subject = 42, Standard = zero_StandardClaims\<rparr>),
      ([69], \<lparr>Issuer = ''trackit'', NotBefore = 1499996400, Expires = 1505184000,
              Subject = 42, Standard = zero_StandardClaims\<lparr>StdIssuedAt := 1600000000\<rparr>\<rparr>)]"

definition demo_lib :: lib where
  "demo_lib =
     \<lparr>EncodeSegment = string_of,
      DecodeSegment = (\<lambda>s. Inr (bytes_of s)),
      json_Marshal_header = (\<lambda>h. bytes_of (fmt_v (h ''alg''))),
      json_Unmarshal_header =
        (\<lambda>b. Inr [''typ'' \<mapsto> HString ''JWT'', ''alg'' \<mapsto> HString (string_of b)]),
      json_Marshal_claims =
        (\<lambda>c. case find (\<lambda>e. snd e = c) demo_table of Some e \<Rightarrow> fst e | None \<Rightarrow> []),
      json_Unmarshal_claims =
        (\<lambda>b. case map_of demo_table b of
               Some c \<Rightarrow> Inr c
             | None \<Rightarrow> Inl (ErrorString ''unexpected end of JSON input'')),
      hash_Available = (\<lambda>h. True),
      hash_Sum = (\<lambda>h m. [97 + (sum_list m AND 15)])\<rparr>"




definition demo_lookup :: "go_int \<Rightarrow> User \<times> error option" where
  "demo_lookup i =
     (if i = 42 then (demo_user, None) else (zero_User, Some (ErrorString ''sql: no rows in result set'')))"

section \<open>Properties of the parser and of \<^verbatim>\<open>testToken\<close>\<close>

lemma StandardClaims_Valid_Some:
  "StandardClaims_Valid now c = Some e \<Longrightarrow> Errors e \<noteq> {}"
  unfolding StandardClaims_Valid_def Let_def
  by (auto split: if_splits)

lemma ParseWithClaims_InrD:
  assumes "ParseWithClaims l tp s kf = Inr token"
  shows "\<exists>p0 p1 p2 hb hdr cb c alg m key.
           split_dot s = [p0, p1, p2] \<and> DecodeSegment l p0 = Inr hb \<and>
           json_Unmarshal_header l hb = Inr hdr \<and> DecodeSegment l p1 = Inr cb \<and>
           json_Unmarshal_claims l cb = Inr c \<and> hdr ''alg'' = Some (HString alg) \<and>
           GetSigningMethod alg = Some m \<and>
           kf \<lparr>Raw = s, Method = Some m, Header = hdr, Claims = JwtClaimsPtr c,
               Signature = [], Valid = False\<rparr> = Inr key \<and>
           StandardClaims_Valid tp (Standard c) = None \<and>
           Verify l m (join_dot [p0, p1]) p2 key = None \<and>
           token = \<lparr>Raw = s, Method = Some m, Header = hdr, Claims = JwtClaimsPtr c,
                    Signature = p2, Valid = True\<rparr>"
  using assms unfolding ParseWithClaims_def Let_def
  by (auto split: list.splits sum.splits option.splits hval.splits error.splits if_splits
        dest: StandardClaims_Valid_Some)

lemma ParseWithClaims_Inr_Valid:
  assumes "ParseWithClaims l tp s kf = Inr token"
  shows "Valid token \<and> (\<exists>c. Claims token = JwtClaimsPtr c)"
  using ParseWithClaims_InrD [OF assms] by auto

lemma testToken_Inl:
  "ParseWithClaims l tp s (getTokenSigningKey cfg) = Inl err \<Longrightarrow>
   testToken l cfg G tp now s = (zero_User, Some err)"
  by (simp add: testToken_def testToken_parsed_def)

lemma testToken_Inr:
  assumes "ParseWithClaims l tp s (getTokenSigningKey cfg) = Inr token"
    and "Claims token = JwtClaimsPtr c"
  shows "testToken l cfg G tp now s =
           (if areClaimsValid cfg now c then G (Subject c)
            else (zero_User, Some (ErrorString ''Claims are invalid.'')))"
  using assms ParseWithClaims_Inr_Valid [OF assms(1)]
  by (simp add: testToken_def testToken_parsed_def)

lemma areClaimsValid_sint:
  "areClaimsValid cfg now c \<longleftrightarrow>
     Issuer c = jwtIssuer cfg \<and> sint (NotBefore c) \<le> sint now \<and> sint now < sint (Expires c)"
  by (simp add: areClaimsValid_def word_sle_eq word_sless_alt)

section \<open>The algorithm check\<close>

text \<open>
  Claim C9. The key function returns the signing secret exactly for the tokens whose method
  is of the HMAC type, and an error for every other token; the registered names that
  resolve to a method of this type are \<^verbatim>\<open>HS256\<close>, \<^verbatim>\<open>HS384\<close> and \<^verbatim>\<open>HS512\<close>,
  and not only the \<^verbatim>\<open>HS256\<close> that \<^verbatim>\<open>generateToken\<close> signs with.
\<close>

theorem getTokenSigningKey_accepts_hmac_family:
  "(getTokenSigningKey cfg token = Inr (jwtSecret cfg)) =
     (\<exists>n h. Method token = Some (SigningMethodHMAC n h))
   \<and> (\<exists>e. getTokenSigningKey cfg token = Inl e) =
     (\<not> (\<exists>n h. Method token = Some (SigningMethodHMAC n h)))
   \<and> (\<exists>n h. GetSigningMethod alg = Some (SigningMethodHMAC n h)) =
     (alg \<in> {''HS256'', ''HS384'', ''HS512''})"
proof (intro conjI)
  show "(getTokenSigningKey cfg token = Inr (jwtSecret cfg)) =
     (\<exists>n h. Method token = Some (SigningMethodHMAC n h))"
    by (auto simp: getTokenSigningKey_def split: option.splits SigningMethod.splits)
  show "(\<exists>e. getTokenSigningKey cfg token = Inl e) =
     (\<not> (\<exists>n h. Method token = Some (SigningMethodHMAC n h)))"
    by (auto simp: getTokenSigningKey_def split: option.splits SigningMethod.splits)
  show "(\<exists>n h. GetSigningMethod alg = Some (SigningMethodHMAC n h)) =
     (alg \<in> {''HS256'', ''HS384'', ''HS512''})"
    by (auto simp: GetSigningMethod_def signingMethods_def split: if_splits)
qed

section \<open>Failures return the zero user\<close>

text \<open>
  Claim C10. Whenever \<^verbatim>\<open>testToken\<close> fails before the lookup (the parser returns an error:
  malformed token, unexpected algorithm, invalid signature; the claims cannot be read; the
  claims are invalid), it returns the zero \<^verbatim>\<open>User\<close> and a non-nil error. Any other
  result is the result of the lookup on the subject of accepted claims.
\<close>

theorem testToken_zero_User_unless_lookup:
  "(\<forall>err. ParseWithClaims l tp s (getTokenSigningKey cfg) = Inl err \<longrightarrow>
       testToken l cfg G tp now s = (zero_User, Some err))
   \<and> (\<forall>token c. ParseWithClaims l tp s (getTokenSigningKey cfg) = Inr token \<and>
         Claims token = JwtClaimsPtr c \<and> \<not> areClaimsValid cfg now c \<longrightarrow>
       testToken l cfg G tp now s = (zero_User, Some (ErrorString ''Claims are invalid.'')))
   \<and> (\<forall>token. Claims token = OtherClaims \<or> \<not> Valid token \<longrightarrow>
       testToken_parsed cfg G now (Inr token) = (zero_User, Some (ErrorString ''Failed to read token.'')))
   \<and> ((\<exists>err. testToken l cfg G tp now s = (zero_User, Some err)) \<or>
       (\<exists>token c. ParseWithClaims l tp s (getTokenSigningKey cfg) = Inr token \<and>
          Claims token = JwtClaimsPtr c \<and> areClaimsValid cfg now c \<and>
          testToken l cfg G tp now s = G (Subject c)))"
proof (intro conjI allI impI)
  fix err assume "ParseWithClaims l tp s (getTokenSigningKey cfg) = Inl err"
  then show "testToken l cfg G tp now s = (zero_User, Some err)" by (rule testToken_Inl)
next
  fix token c
  assume "ParseWithClaims l tp s (getTokenSigningKey cfg) = Inr token \<and>
         Claims token = JwtClaimsPtr c \<and> \<not> areClaimsValid cfg now c"
  then show "testToken l cfg G tp now s = (zero_User, Some (ErrorString ''Claims are invalid.''))"
    using testToken_Inr [of l tp s cfg token c G now] by simp
next
  fix token :: Token assume "Claims token = OtherClaims \<or> \<not> Valid token"
  then show "testToken_parsed cfg G now (Inr token) = (zero_User, Some (ErrorString ''Failed to read token.''))"
    by (auto simp: testToken_parsed_def split: Claims.splits)
next
  show "(\<exists>err. testToken l cfg G tp now s = (zero_User, Some err)) \<or>
       (\<exists>token c. ParseWithClaims l tp s (getTokenSigningKey cfg) = Inr token \<and>
          Claims token = JwtClaimsPtr c \<and> areClaimsValid cfg now c \<and>
          testToken l cfg G tp now s = G (Subject c))"
  proof (cases "ParseWithClaims l tp s (getTokenSigningKey cfg)")
    case (Inl err)
    then show ?thesis using testToken_Inl by blast
  next
    case (Inr token)
    from ParseWithClaims_Inr_Valid [OF Inr] obtain c where c: "Claims token = JwtClaimsPtr c"
      by blast
    show ?thesis
      using testToken_Inr [OF Inr c, of G now] Inr c by (cases "areClaimsValid cfg now c") auto
  qed
qed

theorem testToken_zero_User_unless_lookup_witness:
  "testToken demo_lib demo_cfg demo_lookup 1500000001 1500000001 ''HS256.A'' =
     (zero_User, Some (ValidationError ''token contains an invalid number of segments'' None
        {ValidationErrorMalformed}))
   \<and> testToken demo_lib demo_cfg demo_lookup 1500000001 1500000001 ''HS256.D.j'' =
     (zero_User, Some (ErrorString ''Claims are invalid.''))
   \<and> testToken_parsed demo_cfg demo_lookup 1500000001
        (Inr \<lparr>Raw = [], Method = None, Header = Map.empty, Claims = OtherClaims, Signature = [],
              Valid = True\<rparr>) = (zero_User, Some (ErrorString ''Failed to read token.''))"
proof -
  have "isl (ParseWithClaims demo_lib 1500000001 ''HS256.A'' (getTokenSigningKey demo_cfg)) \<and>
     projl (ParseWithClaims demo_lib 1500000001 ''HS256.A'' (getTokenSigningKey demo_cfg)) =
       ValidationError ''token contains an invalid number of segments'' None
        {ValidationErrorMalformed}"
    by code_simp
  then have p: "ParseWithClaims demo_lib 1500000001 ''HS256.A'' (getTokenSigningKey demo_cfg) =
     Inl (ValidationError ''token contains an invalid number of segments'' None
        {ValidationErrorMalformed})"
    by (cases "ParseWithClaims demo_lib 1500000001 ''HS256.A'' (getTokenSigningKey demo_cfg)") auto
  have "\<not> isl (ParseWithClaims demo_lib 1500000001 ''HS256.D.j'' (getTokenSigningKey demo_cfg))"
    by code_simp
  then obtain token where
    h: "ParseWithClaims demo_lib 1500000001 ''HS256.D.j'' (getTokenSigningKey demo_cfg) = Inr token"
    by (cases "ParseWithClaims demo_lib 1500000001 ''HS256.D.j'' (getTokenSigningKey demo_cfg)") auto
  from ParseWithClaims_Inr_Valid [OF h] obtain c where c: "Claims token = JwtClaimsPtr c" by blast
  have "testToken demo_lib demo_cfg demo_lookup 1500000001 1500000001 ''HS256.D.j'' =
     (zero_User, Some (ErrorString ''Claims are invalid.''))" by code_simp
  then have nv: "\<not> areClaimsValid demo_cfg 1500000001 c"
    using testToken_Inr [OF h c, of demo_lookup 1500000001]
    by (auto simp: demo_lookup_def demo_user_def zero_User_def split: if_splits)
  note T = testToken_zero_User_unless_lookup
    [of demo_lib 1500000001 "''HS256.A''" demo_cfg demo_lookup 1500000001]
  note T2 = testToken_zero_User_unless_lookup
    [of demo_lib 1500000001 "''HS256.D.j''" demo_cfg demo_lookup 1500000001]
  from T p have 1: "testToken demo_lib demo_cfg demo_lookup 1500000001 1500000001 ''HS256.A'' =
     (zero_User, Some (ValidationError ''token contains an invalid number of segments'' None
        {ValidationErrorMalformed}))" by blast
  from T2 h c nv have 2: "testToken demo_lib demo_cfg demo_lookup 1500000001 1500000001 ''HS256.D.j'' =
     (zero_User, Some (ErrorString ''Claims are invalid.''))" by blast
  from T have 3: "testToken_parsed demo_cfg demo_lookup 1500000001
        (Inr \<lparr>Raw = [], Method = None, Header = Map.empty, Claims = OtherClaims, Signature = [],
              Valid = True\<rparr>) = (zero_User, Some (ErrorString ''Failed to read token.''))"
    by simp
  from 1 2 3 show ?thesis by blast
qed

section \<open>The claims of an issued token\<close>

lemma sint_sub_3600:
  fixes t :: int64
  assumes "- (2 ^ 63) + 3600 \<le> sint t"
  shows "sint (t - 3600) = sint t - 3600"
proof -
  have "sint t < 2 ^ 63" using sint_lt [of t] by simp
  with assms show ?thesis
    by (simp add: sint_word_ariths signed_take_bit_int_eq_self)
qed

lemma sint_add_5184000:
  fixes t :: int64
  assumes "sint t < 2 ^ 63 - 5184000"
  shows "sint (t + 5184000) = sint t + 5184000"
proof -
  have "- (2 ^ 63) \<le> sint t" using sint_ge [of t] by simp
  with assms show ?thesis
    by (simp add: sint_word_ariths signed_take_bit_int_eq_self)
qed

text \<open>
  Claim C3. \<^verbatim>\<open>generateToken\<close> signs claims whose issuer is the configured issuer, whose
  \<open>NotBefore\<close> is the clock reading minus one hour, whose \<open>Expires\<close> is the clock reading
  plus sixty days and whose subject is the user's id; hence \<open>NotBefore < Expires\<close>. The
  two clock readings \<open>t1 \<le> t2\<close> are the mint time (the claim's single instant is
  \<open>t1 = t2\<close>), far enough from the ends of \<^verbatim>\<open>int64\<close> for the two sums not to wrap.
\<close>

theorem generateToken_claims:
  assumes "- (2 ^ 63) + 3600 \<le> sint t1" and "sint t1 \<le> sint t2" and "sint t2 < 2 ^ 63 - 5184000"
  shows "\<exists>c. generateToken l cfg t1 t2 u =
             SignedString l (SigningMethodHMAC ''HS256'' SHA256)
               [''typ'' \<mapsto> HString ''JWT'', ''alg'' \<mapsto> HString ''HS256''] c (jwtSecret cfg) \<and>
           Issuer c = jwtIssuer cfg \<and>
           sint (NotBefore c) = sint t1 - 3600 \<and>
           sint (Expires c) = sint t2 + 5184000 \<and>
           Subject c = Id' u \<and>
           NotBefore c <s Expires c"
proof -
  let ?c = "newClaims cfg t1 t2 u"
  have g: "generateToken l cfg t1 t2 u =
             SignedString l (SigningMethodHMAC ''HS256'' SHA256)
               [''typ'' \<mapsto> HString ''JWT'', ''alg'' \<mapsto> HString ''HS256''] ?c (jwtSecret cfg)"
    by (simp add: generateToken_def NewWithClaims_def)
  have nb: "sint (NotBefore ?c) = sint t1 - 3600"
    using sint_sub_3600 [OF assms(1)] by (simp add: newClaims_def)
  have ex: "sint (Expires ?c) = sint t2 + 5184000"
    using sint_add_5184000 [OF assms(3)] by (simp add: newClaims_def)
  have lt: "NotBefore ?c <s Expires ?c"
    using nb ex assms(2) by (simp add: word_sless_alt)
  have "Issuer ?c = jwtIssuer cfg" "Subject ?c = Id' u"
    by (simp_all add: newClaims_def)
  with g nb ex lt show ?thesis by blast
qed

theorem generateToken_claims_witness:
  "- (2 ^ 63) + 3600 \<le> sint (1500000000 :: int64) \<and>
   sint (1500000000 :: int64) < 2 ^ 63 - 5184000 \<and>
   (\<exists>c. generateToken demo_lib demo_cfg 1500000000 1500000000 demo_user =
             SignedString demo_lib (SigningMethodHMAC ''HS256'' SHA256)
               [''typ'' \<mapsto> HString ''JWT'', ''alg'' \<mapsto> HString ''HS256''] c (jwtSecret demo_cfg) \<and>
           Issuer c = ''trackit'' \<and>
           sint (NotBefore c) = 1499996400 \<and>
           sint (Expires c) = 1505184000 \<and>
           Subject c = 42 \<and>
           NotBefore c <s Expires c)"
proof -
  have a: "- (2 ^ 63) + 3600 \<le> sint (1500000000 :: int64)" by simp
  have b: "sint (1500000000 :: int64) \<le> sint (1500000000 :: int64)" by simp
  have c: "sint (1500000000 :: int64) < 2 ^ 63 - 5184000" by simp
  from generateToken_claims [OF a b c, of demo_lib demo_cfg demo_user] a c
  show ?thesis by (simp add: demo_cfg_def demo_user_def)
qed

lemma demo_claims_invalid:
  assumes "ParseWithClaims demo_lib tp s (getTokenSigningKey demo_cfg) = Inr token"
    and "Claims token = JwtClaimsPtr c"
    and "testToken demo_lib demo_cfg demo_lookup tp now s =
           (zero_User, Some (ErrorString ''Claims are invalid.''))"
  shows "\<not> areClaimsValid demo_cfg now c"
proof
  assume v: "areClaimsValid demo_cfg now c"
  have "testToken demo_lib demo_cfg demo_lookup tp now s = demo_lookup (Subject c)"
    using testToken_Inr [OF assms(1,2), of demo_lookup now] v by simp
  with assms(3) have "demo_lookup (Subject c) = (zero_User, Some (ErrorString ''Claims are invalid.''))"
    by simp
  then show False
    by (simp add: demo_lookup_def demo_user_def zero_User_def split: if_splits)
qed

lemma not_isl_obtain:
  assumes "\<not> isl x"
  obtains y where "x = Inr y"
  using assms by (cases x) auto

section \<open>One error for every invalid claim\<close>

text \<open>
  Claim C8, as amended. The three causes of invalid claims (another issuer, a \<open>NotBefore\<close>
  in the future, an \<open>Expires\<close> in the past) are not told apart: whenever the parser accepts
  two tokens and the claims of both fail \<^verbatim>\<open>areClaimsValid\<close>, for whatever cause,
  \<^verbatim>\<open>testToken\<close> returns the same result for both, the zero user with the error
  \<^verbatim>\<open>Claims are invalid.\<close>
\<close>

theorem claims_failures_share_one_error:
  assumes "ParseWithClaims l tp1 s1 (getTokenSigningKey cfg) = Inr token1"
    and "Claims token1 = JwtClaimsPtr c1" and "\<not> areClaimsValid cfg now1 c1"
    and "ParseWithClaims l tp2 s2 (getTokenSigningKey cfg) = Inr token2"
    and "Claims token2 = JwtClaimsPtr c2" and "\<not> areClaimsValid cfg now2 c2"
  shows "testToken l cfg G tp1 now1 s1 = (zero_User, Some (ErrorString ''Claims are invalid.'')) \<and>
         testToken l cfg G tp2 now2 s2 = testToken l cfg G tp1 now1 s1"
proof -
  have 1: "testToken l cfg G tp1 now1 s1 = (zero_User, Some (ErrorString ''Claims are invalid.''))"
    using testToken_Inr [OF assms(1,2), of G now1] assms(3) by simp
  have 2: "testToken l cfg G tp2 now2 s2 = (zero_User, Some (ErrorString ''Claims are invalid.''))"
    using testToken_Inr [OF assms(4,5), of G now2] assms(6) by simp
  from 1 2 show ?thesis by simp
qed

text \<open>
  The claim as stated fails: a token of another issuer, a token not yet valid and an
  expired token, each correctly signed, get the very same result at time 1500000000.
\<close>

theorem claims_failure_causes_collapse:
  "json_Unmarshal_claims demo_lib (bytes_of ''B'') =
     Inr \<lparr>Issuer = ''other'', NotBefore = 1499996400, Expires = 1505184000,
          Subject = 42, Standard = zero_StandardClaims\<rparr>
   \<and> json_Unmarshal_claims demo_lib (bytes_of ''C'') =
     Inr \<lparr>Issuer = ''trackit'', NotBefore = 1600000000, Expires = 1605184000,
          Subject = 42, Standard = zero_StandardClaims\<rparr>
   \<and> json_Unmarshal_claims demo_lib (bytes_of ''D'') =
     Inr \<lparr>Issuer = ''trackit'', NotBefore = 1399996400, Expires = 1405184000,
          Subject = 42, Standard = zero_StandardClaims\<rparr>
   \<and> jwtIssuer demo_cfg = ''trackit''
   \<and> testToken demo_lib demo_cfg demo_lookup 1500000000 1500000000 ''HS256.B.h'' =
       (zero_User, Some (ErrorString ''Claims are invalid.''))
   \<and> testToken demo_lib demo_cfg demo_lookup 1500000000 1500000000 ''HS256.C.i'' =
       (zero_User, Some (ErrorString ''Claims are invalid.''))
   \<and> testToken demo_lib demo_cfg demo_lookup 1500000000 1500000000 ''HS256.D.j'' =
       (zero_User, Some (ErrorString ''Claims are invalid.''))"
proof (intro conjI)
  show "json_Unmarshal_claims demo_lib (bytes_of ''B'') =
     Inr \<lparr>Issuer = ''other'', NotBefore = 1499996400, Expires = 1505184000,
          Subject = 42, Standard = zero_StandardClaims\<rparr>"
    by code_simp
  show "json_Unmarshal_claims demo_lib (bytes_of ''C'') =
     Inr \<lparr>Issuer = ''trackit'', NotBefore = 1600000000, Expires = 1605184000,
          Subject = 42, Standard = zero_StandardClaims\<rparr>"
    by code_simp
  show "json_Unmarshal_claims demo_lib (bytes_of ''D'') =
     Inr \<lparr>Issuer = ''trackit'', NotBefore = 1399996400, Expires = 1405184000,
          Subject = 42, Standard = zero_StandardClaims\<rparr>"
    by code_simp
  show "jwtIssuer demo_cfg = ''trackit''"
    by (simp add: demo_cfg_def)
  show "testToken demo_lib demo_cfg demo_lookup 1500000000 1500000000 ''HS256.B.h'' =
       (zero_User, Some (ErrorString ''Claims are invalid.''))"
    by code_simp
  show "testToken demo_lib demo_cfg demo_lookup 1500000000 1500000000 ''HS256.C.i'' =
       (zero_User, Some (ErrorString ''Claims are invalid.''))"
    by code_simp
  show "testToken demo_lib demo_cfg demo_lookup 1500000000 1500000000 ''HS256.D.j'' =
       (zero_User, Some (ErrorString ''Claims are invalid.''))"
    by code_simp
qed

theorem claims_failures_share_one_error_witness:
  "\<exists>token1 c1 token2 c2.
     ParseWithClaims demo_lib 1500000000 ''HS256.B.h'' (getTokenSigningKey demo_cfg) = Inr token1 \<and>
     Claims token1 = JwtClaimsPtr c1 \<and> \<not> areClaimsValid demo_cfg 1500000000 c1 \<and>
     ParseWithClaims demo_lib 1500000000 ''HS256.D.j'' (getTokenSigningKey demo_cfg) = Inr token2 \<and>
     Claims token2 = JwtClaimsPtr c2 \<and> \<not> areClaimsValid demo_cfg 1500000000 c2 \<and>
     testToken demo_lib demo_cfg demo_lookup 1500000000 1500000000 ''HS256.B.h'' =
       (zero_User, Some (ErrorString ''Claims are invalid.'')) \<and>
     testToken demo_lib demo_cfg demo_lookup 1500000000 1500000000 ''HS256.D.j'' =
       testToken demo_lib demo_cfg demo_lookup 1500000000 1500000000 ''HS256.B.h''"
proof -
  have "\<not> isl (ParseWithClaims demo_lib 1500000000 ''HS256.B.h'' (getTokenSigningKey demo_cfg))"
    by code_simp
  then obtain token1 where
    h1: "ParseWithClaims demo_lib 1500000000 ''HS256.B.h'' (getTokenSigningKey demo_cfg) = Inr token1"
    by (rule not_isl_obtain)
  from ParseWithClaims_Inr_Valid [OF h1] obtain c1 where c1: "Claims token1 = JwtClaimsPtr c1"
    by blast
  have "testToken demo_lib demo_cfg demo_lookup 1500000000 1500000000 ''HS256.B.h'' =
       (zero_User, Some (ErrorString ''Claims are invalid.''))"
    by code_simp
  from demo_claims_invalid [OF h1 c1 this] have n1: "\<not> areClaimsValid demo_cfg 1500000000 c1" .
  have "\<not> isl (ParseWithClaims demo_lib 1500000000 ''HS256.D.j'' (getTokenSigningKey demo_cfg))"
    by code_simp
  then obtain token2 where
    h2: "ParseWithClaims demo_lib 1500000000 ''HS256.D.j'' (getTokenSigningKey demo_cfg) = Inr token2"
    by (rule not_isl_obtain)
  from ParseWithClaims_Inr_Valid [OF h2] obtain c2 where c2: "Claims token2 = JwtClaimsPtr c2"
    by blast
  have "testToken demo_lib demo_cfg demo_lookup 1500000000 1500000000 ''HS256.D.j'' =
       (zero_User, Some (ErrorString ''Claims are invalid.''))"
    by code_simp
  from demo_claims_invalid [OF h2 c2 this] have n2: "\<not> areClaimsValid demo_cfg 1500000000 c2" .
  note r = claims_failures_share_one_error [OF h1 c1 n1 h2 c2 n2, of demo_lookup]
  show ?thesis
    apply (rule exI [of _ token1], rule exI [of _ c1], rule exI [of _ token2], rule exI [of _ c2])
    using r h1 c1 n1 h2 c2 n2 by simp
qed

section \<open>Tokens of another algorithm\<close>

lemma string_of_bytes_of [simp]: "string_of (bytes_of s) = s"
proof -
  have "char_of (unat (of_char c :: byte)) = c" for c
  proof -
    have "(of_char c :: byte) = of_nat (of_char c)"
      by (simp only: of_nat_of_char)
    then have "unat (of_char c :: byte) = of_char c mod 256"
      by (simp only: unat_of_nat) simp
    then show ?thesis by simp
  qed
  then show ?thesis by (simp add: string_of_def bytes_of_def o_def)
qed

lemma ParseWithClaims_wf:
  assumes "split_dot s = [p0, p1, p2]" and "DecodeSegment l p0 = Inr hb"
    and "json_Unmarshal_header l hb = Inr hdr" and "DecodeSegment l p1 = Inr cb"
    and "json_Unmarshal_claims l cb = Inr c" and "hdr ''alg'' = Some (HString alg)"
  shows "ParseWithClaims l tp s kf =
     (case GetSigningMethod alg of
        None \<Rightarrow> Inl (ValidationError ''signing method (alg) is unavailable.'' None
                              {ValidationErrorUnverifiable})
      | Some method \<Rightarrow>
          (let token = \<lparr>Raw = s, Method = Some method, Header = hdr,
                        Claims = JwtClaimsPtr c, Signature = [], Valid = False\<rparr>
           in case kf token of
                Inl err \<Rightarrow>
                  (case err of
                     ValidationError t i f \<Rightarrow> Inl err
                   | _ \<Rightarrow> Inl (ValidationError [] (Some err) {ValidationErrorUnverifiable}))
              | Inr key \<Rightarrow>
                  (let vErr = (case StandardClaims_Valid tp (Standard c) of
                                 None \<Rightarrow> ValidationError [] None {}
                               | Some e \<Rightarrow> e);
                       vErr' = (case Verify l method (join_dot [p0, p1]) p2 key of
                                  None \<Rightarrow> vErr
                                | Some err \<Rightarrow>
                                    ValidationError (vtext vErr) (Some err)
                                      (insert ValidationErrorSignatureInvalid (Errors vErr)))
                   in if Errors vErr' = {}
                      then Inr (token\<lparr>Signature := p2, Valid := True\<rparr>)
                      else Inl vErr')))"
  by (simp add: ParseWithClaims_def assms)




section \<open>Issue, then verify\<close>

lemma split_dot_no_dot: "CHR ''.'' \<notin> set a \<Longrightarrow> split_dot a = [a]"
  by (induction a) auto

lemma split_dot_append:
  "CHR ''.'' \<notin> set a \<Longrightarrow> split_dot (a @ CHR ''.'' # r) = a # split_dot r"
  by (induction a) auto

lemma split_dot_three:
  assumes "CHR ''.'' \<notin> set a" and "CHR ''.'' \<notin> set b" and "CHR ''.'' \<notin> set c"
  shows "split_dot (join_dot [join_dot [a, b], c]) = [a, b, c]"
  using assms by (simp add: split_dot_append split_dot_no_dot)

lemma StandardClaims_Valid_zero [simp]: "StandardClaims_Valid tp zero_StandardClaims = None"
  by (simp add: StandardClaims_Valid_def zero_StandardClaims_def)

lemma newClaims_valid:
  assumes "- (2 ^ 63) + 3600 \<le> sint t1" and "sint t2 < 2 ^ 63 - 5184000"
    and "sint t1 - 3600 \<le> sint now" and "sint now < sint t2 + 5184000"
  shows "areClaimsValid cfg now (newClaims cfg t1 t2 u)"
  using assms sint_sub_3600 [OF assms(1)] sint_add_5184000 [OF assms(2)]
  by (simp add: areClaimsValid_sint newClaims_def)

text \<open>
  Claim C1. A token issued for a user \<open>u\<close> verifies and resolves to \<open>u\<close>: when the
  hash is available, the three segments of the token survive the codec, the header and the
  claims decode to what was encoded, the verification time lies in the window of the token
  (as it does right after the issue) and the lookup returns \<open>u\<close> for the id of \<open>u\<close>,
  \<^verbatim>\<open>generateToken\<close> returns a token and \<^verbatim>\<open>testToken\<close> returns \<open>u\<close> with a nil
  error for it.
\<close>

theorem verify_issued_token:
  assumes "hash_Available l SHA256"
    and "segment_ok l (json_Marshal_header l [''typ'' \<mapsto> HString ''JWT'', ''alg'' \<mapsto> HString ''HS256''])"
    and "segment_ok l (json_Marshal_claims l (newClaims cfg t1 t2 u))"
    and "segment_ok l (hmac_Sum l SHA256 (jwtSecret cfg)
           (bytes_of (SigningString l [''typ'' \<mapsto> HString ''JWT'', ''alg'' \<mapsto> HString ''HS256'']
              (newClaims cfg t1 t2 u))))"
    and "json_Unmarshal_header l
           (json_Marshal_header l [''typ'' \<mapsto> HString ''JWT'', ''alg'' \<mapsto> HString ''HS256'']) = Inr hdr"
    and "hdr ''alg'' = Some (HString ''HS256'')"
    and "json_Unmarshal_claims l (json_Marshal_claims l (newClaims cfg t1 t2 u)) =
           Inr (newClaims cfg t1 t2 u)"
    and "- (2 ^ 63) + 3600 \<le> sint t1" and "sint t2 < 2 ^ 63 - 5184000"
    and "sint t1 - 3600 \<le> sint now" and "sint now < sint t2 + 5184000"
    and "GetUserWithId (Id' u) = (u, None)"
  shows "\<exists>tok. generateToken l cfg t1 t2 u = Inr tok \<and>
           testToken l cfg GetUserWithId tp now tok = (u, None)"
proof -
  let ?h = "[''typ'' \<mapsto> HString ''JWT'', ''alg'' \<mapsto> HString ''HS256'']"
  let ?c = "newClaims cfg t1 t2 u"
  let ?p0 = "EncodeSegment l (json_Marshal_header l ?h)"
  let ?p1 = "EncodeSegment l (json_Marshal_claims l ?c)"
  let ?mac = "hmac_Sum l SHA256 (jwtSecret cfg) (bytes_of (join_dot [?p0, ?p1]))"
  let ?p2 = "EncodeSegment l ?mac"
  let ?tok = "join_dot [join_dot [?p0, ?p1], ?p2]"
  have ss: "SigningString l ?h ?c = join_dot [?p0, ?p1]"
    by (simp add: SigningString_def)
  have gen: "generateToken l cfg t1 t2 u = Inr ?tok"
    using assms(1) by (simp add: generateToken_def NewWithClaims_def SignedString_def ss)
  have nd: "CHR ''.'' \<notin> set ?p0" "CHR ''.'' \<notin> set ?p1" "CHR ''.'' \<notin> set ?p2"
    using assms(2,3,4) by (simp_all add: segment_ok_def ss)
  have sp: "split_dot ?tok = [?p0, ?p1, ?p2]"
    by (rule split_dot_three [OF nd])
  have d0: "DecodeSegment l ?p0 = Inr (json_Marshal_header l ?h)"
    using assms(2) by (simp add: segment_ok_def)
  have d1: "DecodeSegment l ?p1 = Inr (json_Marshal_claims l ?c)"
    using assms(3) by (simp add: segment_ok_def)
  have d2: "DecodeSegment l ?p2 = Inr ?mac"
    using assms(4) by (simp add: segment_ok_def ss)
  have m: "GetSigningMethod ''HS256'' = Some (SigningMethodHMAC ''HS256'' SHA256)"
    by (simp add: GetSigningMethod_def signingMethods_def)
  have v: "Verify l (SigningMethodHMAC ''HS256'' SHA256) (join_dot [?p0, ?p1]) ?p2 (jwtSecret cfg) = None"
    using assms(1) d2 by simp
  have std: "Standard ?c = zero_StandardClaims" by (simp add: newClaims_def)
  have parse: "ParseWithClaims l tp ?tok (getTokenSigningKey cfg) =
      Inr \<lparr>Raw = ?tok, Method = Some (SigningMethodHMAC ''HS256'' SHA256), Header = hdr,
           Claims = JwtClaimsPtr ?c, Signature = ?p2, Valid = True\<rparr>"
    unfolding ParseWithClaims_wf [OF sp d0 assms(5) d1 assms(7) assms(6)]
    using v by (simp add: m getTokenSigningKey_def std)
  have "testToken l cfg GetUserWithId tp now ?tok = GetUserWithId (Subject ?c)"
    using testToken_Inr [OF parse, of ?c GetUserWithId now] newClaims_valid [OF assms(8-11), of cfg u]
    by simp
  also have "\<dots> = (u, None)" using assms(12) by (simp add: newClaims_def)
  finally show ?thesis using gen by blast
qed

theorem verify_issued_token_witness:
  "hash_Available demo_lib SHA256 \<and>
   segment_ok demo_lib
     (json_Marshal_header demo_lib [''typ'' \<mapsto> HString ''JWT'', ''alg'' \<mapsto> HString ''HS256'']) \<and>
   segment_ok demo_lib
     (json_Marshal_claims demo_lib (newClaims demo_cfg 1500000000 1500000000 demo_user)) \<and>
   segment_ok demo_lib (hmac_Sum demo_lib SHA256 (jwtSecret demo_cfg)
     (bytes_of (SigningString demo_lib [''typ'' \<mapsto> HString ''JWT'', ''alg'' \<mapsto> HString ''HS256'']
        (newClaims demo_cfg 1500000000 1500000000 demo_user)))) \<and>
   json_Unmarshal_claims demo_lib
     (json_Marshal_claims demo_lib (newClaims demo_cfg 1500000000 1500000000 demo_user)) =
     Inr (newClaims demo_cfg 1500000000 1500000000 demo_user) \<and>
   demo_lookup (Id' demo_user) = (demo_user, None) \<and>
   generateToken demo_lib demo_cfg 1500000000 1500000000 demo_user = Inr ''HS256.A.g'' \<and>
   testToken demo_lib demo_cfg demo_lookup 1500000001 1500000001 ''HS256.A.g'' = (demo_user, None)"
proof -
  let ?h = "[''typ'' \<mapsto> HString ''JWT'', ''alg'' \<mapsto> HString ''HS256'']"
  let ?c = "newClaims demo_cfg 1500000000 1500000000 demo_user"
  have 1: "hash_Available demo_lib SHA256" by (simp add: demo_lib_def)
  have 2: "segment_ok demo_lib (json_Marshal_header demo_lib ?h)" by code_simp
  have 3: "segment_ok demo_lib (json_Marshal_claims demo_lib ?c)" by code_simp
  have 4: "segment_ok demo_lib (hmac_Sum demo_lib SHA256 (jwtSecret demo_cfg)
     (bytes_of (SigningString demo_lib ?h ?c)))" by code_simp
  have 5: "json_Unmarshal_header demo_lib (json_Marshal_header demo_lib ?h) = Inr ?h"
    by (simp add: demo_lib_def)
  have 6: "?h ''alg'' = Some (HString ''HS256'')" by simp
  have 7: "json_Unmarshal_claims demo_lib (json_Marshal_claims demo_lib ?c) = Inr ?c"
    by code_simp
  have 8: "- (2 ^ 63) + 3600 \<le> sint (1500000000 :: int64)" by simp
  have 9: "sint (1500000000 :: int64) < 2 ^ 63 - 5184000" by simp
  have 10: "sint (1500000000 :: int64) - 3600 \<le> sint (1500000001 :: int64)" by simp
  have 11: "sint (1500000001 :: int64) < sint (1500000000 :: int64) + 5184000" by simp
  have 12: "demo_lookup (Id' demo_user) = (demo_user, None)"
    by (simp add: demo_lookup_def demo_user_def)
  have g: "generateToken demo_lib demo_cfg 1500000000 1500000000 demo_user = Inr ''HS256.A.g''"
    by code_simp
  from verify_issued_token [where l = demo_lib and cfg = demo_cfg and ?t1.0 = 1500000000
      and ?t2.0 = 1500000000 and u = demo_user and hdr = ?h and now = 1500000001
      and GetUserWithId = demo_lookup and tp = 1500000001, OF 1 2 3 4 5 6 7 8 9 10 11 12] g
  have "testToken demo_lib demo_cfg demo_lookup 1500000001 1500000001 ''HS256.A.g'' = (demo_user, None)"
    by simp
  with 1 2 3 4 7 12 g show ?thesis by simp
qed

section \<open>Tokens signed with another secret\<close>



lemma length_hmac_block [simp]: "length (hmac_block l h key) = BlockSize h"
  by (simp add: hmac_block_def Let_def)










section \<open>The claims check\<close>

text \<open>
  Claim C2, as amended. For a well-formed token of an HMAC method whose signature verifies,
  \<^verbatim>\<open>testToken\<close> first returns the error of jwt-go's own check of the embedded
  \<^verbatim>\<open>StandardClaims\<close> when there is one (an \<^verbatim>\<open>iat\<close> in the future, for instance); when
  that check passes, it goes on to the lookup exactly when the issuer is the configured
  one, \<open>NotBefore \<le> now\<close> and \<open>now < Expires\<close>, and fails with
  \<^verbatim>\<open>Claims are invalid.\<close> otherwise. At \<open>now = Expires\<close> the claims are rejected; at
  \<open>now = NotBefore\<close> they are accepted (given the issuer and a non-empty window).
\<close>

theorem testToken_claims_check:
  assumes "split_dot s = [p0, p1, p2]" and "DecodeSegment l p0 = Inr hb"
    and "json_Unmarshal_header l hb = Inr hdr" and "DecodeSegment l p1 = Inr cb"
    and "json_Unmarshal_claims l cb = Inr c" and "hdr ''alg'' = Some (HString alg)"
    and "GetSigningMethod alg = Some (SigningMethodHMAC n h)"
    and "Verify l (SigningMethodHMAC n h) (join_dot [p0, p1]) p2 (jwtSecret cfg) = None"
  shows "testToken l cfg G tp now s =
           (case StandardClaims_Valid tp (Standard c) of
              Some err \<Rightarrow> (zero_User, Some err)
            | None \<Rightarrow>
                if Issuer c = jwtIssuer cfg \<and> sint (NotBefore c) \<le> sint now \<and>
                   sint now < sint (Expires c)
                then G (Subject c)
                else (zero_User, Some (ErrorString ''Claims are invalid.''))) \<and>
         \<not> areClaimsValid cfg (Expires c) c \<and>
         (areClaimsValid cfg (NotBefore c) c \<longleftrightarrow>
            Issuer c = jwtIssuer cfg \<and> sint (NotBefore c) < sint (Expires c))"
proof (intro conjI)
  have v: "Verify l (SigningMethodHMAC n h) (p0 @ CHR ''.'' # p1) p2 (jwtSecret cfg) = None"
    using assms(8) by simp
  note P = ParseWithClaims_wf [OF assms(1-6), of tp "getTokenSigningKey cfg"]
  show "testToken l cfg G tp now s =
           (case StandardClaims_Valid tp (Standard c) of
              Some err \<Rightarrow> (zero_User, Some err)
            | None \<Rightarrow>
                if Issuer c = jwtIssuer cfg \<and> sint (NotBefore c) \<le> sint now \<and>
                   sint now < sint (Expires c)
                then G (Subject c)
                else (zero_User, Some (ErrorString ''Claims are invalid.'')))"
  proof (cases "StandardClaims_Valid tp (Standard c)")
    case None
    have "ParseWithClaims l tp s (getTokenSigningKey cfg) =
            Inr \<lparr>Raw = s, Method = Some (SigningMethodHMAC n h), Header = hdr,
                 Claims = JwtClaimsPtr c, Signature = p2, Valid = True\<rparr>"
      unfolding P by (simp add: assms(7) getTokenSigningKey_def v None del: Verify.simps)
    from testToken_Inr [OF this, of c G now] None show ?thesis
      by (simp add: areClaimsValid_sint)
  next
    case (Some e)
    from StandardClaims_Valid_Some [OF Some] have "Errors e \<noteq> {}" .
    then have "ParseWithClaims l tp s (getTokenSigningKey cfg) = Inl e"
      unfolding P by (simp add: assms(7) getTokenSigningKey_def v Some del: Verify.simps)
    from testToken_Inl [OF this, of G now] Some show ?thesis by simp
  qed
  show "\<not> areClaimsValid cfg (Expires c) c"
    by (simp add: areClaimsValid_sint)
  show "areClaimsValid cfg (NotBefore c) c \<longleftrightarrow>
          Issuer c = jwtIssuer cfg \<and> sint (NotBefore c) < sint (Expires c)"
    by (simp add: areClaimsValid_sint)
qed

theorem testToken_claims_check_witness:
  "split_dot ''HS256.A.g'' = [''HS256'', ''A'', ''g''] \<and>
   json_Unmarshal_claims demo_lib (bytes_of ''A'') =
     Inr (newClaims demo_cfg 1500000000 1500000000 demo_user) \<and>
   Verify demo_lib (SigningMethodHMAC ''HS256'' SHA256) (join_dot [''HS256'', ''A'']) ''g''
     (jwtSecret demo_cfg) = None \<and>
   testToken demo_lib demo_cfg demo_lookup 1500000001 1505183999 ''HS256.A.g'' = (demo_user, None) \<and>
   testToken demo_lib demo_cfg demo_lookup 1500000001 1505184000 ''HS256.A.g'' =
     (zero_User, Some (ErrorString ''Claims are invalid.'')) \<and>
   testToken demo_lib demo_cfg demo_lookup 1500000001 1499996400 ''HS256.A.g'' = (demo_user, None) \<and>
   testToken demo_lib demo_cfg demo_lookup 1500000001 1499996399 ''HS256.A.g'' =
     (zero_User, Some (ErrorString ''Claims are invalid.''))"
proof -
  let ?h = "[''typ'' \<mapsto> HString ''JWT'', ''alg'' \<mapsto> HString ''HS256'']"
  let ?c = "newClaims demo_cfg 1500000000 1500000000 demo_user"
  have 1: "split_dot ''HS256.A.g'' = [''HS256'', ''A'', ''g'']" by simp
  have 2: "DecodeSegment demo_lib ''HS256'' = Inr (bytes_of ''HS256'')"
    by (simp add: demo_lib_def)
  have 3: "json_Unmarshal_header demo_lib (bytes_of ''HS256'') = Inr ?h"
    by (simp add: demo_lib_def)
  have 4: "DecodeSegment demo_lib ''A'' = Inr (bytes_of ''A'')"
    by (simp add: demo_lib_def)
  have 5: "json_Unmarshal_claims demo_lib (bytes_of ''A'') = Inr ?c" by code_simp
  have 6: "?h ''alg'' = Some (HString ''HS256'')" by simp
  have 7: "GetSigningMethod ''HS256'' = Some (SigningMethodHMAC ''HS256'' SHA256)"
    by (simp add: GetSigningMethod_def signingMethods_def)
  have 8: "Verify demo_lib (SigningMethodHMAC ''HS256'' SHA256) (join_dot [''HS256'', ''A'']) ''g''
     (jwtSecret demo_cfg) = None" by code_simp
  note T = testToken_claims_check [where l = demo_lib and cfg = demo_cfg and hdr = ?h
      and G = demo_lookup and tp = 1500000001, OF 1 2 3 4 5 6 7 8, THEN conjunct1]
  have std: "StandardClaims_Valid 1500000001 (Standard ?c) = None"
    by (simp add: newClaims_def)
  have f: "Issuer ?c = jwtIssuer demo_cfg" "sint (NotBefore ?c) = 1499996400"
    "sint (Expires ?c) = 1505184000" "demo_lookup (Subject ?c) = (demo_user, None)"
    by (simp_all add: newClaims_def demo_lookup_def demo_user_def)
  have a: "testToken demo_lib demo_cfg demo_lookup 1500000001 1505183999 ''HS256.A.g'' = (demo_user, None)"
    using T [of 1505183999] by (simp add: std f)
  have b: "testToken demo_lib demo_cfg demo_lookup 1500000001 1505184000 ''HS256.A.g'' =
     (zero_User, Some (ErrorString ''Claims are invalid.''))"
    using T [of 1505184000] by (simp add: std f)
  have c: "testToken demo_lib demo_cfg demo_lookup 1500000001 1499996400 ''HS256.A.g'' = (demo_user, None)"
    using T [of 1499996400] by (simp add: std f)
  have d: "testToken demo_lib demo_cfg demo_lookup 1500000001 1499996399 ''HS256.A.g'' =
     (zero_User, Some (ErrorString ''Claims are invalid.''))"
    using T [of 1499996399] by (simp add: std f)
  from 1 5 8 a b c d show ?thesis by simp
qed

text \<open>
  The claim as stated fails. The token \<^verbatim>\<open>HS256.E.k\<close> is well formed and correctly
  signed; its issuer is the configured one and the time 1500000000 lies in its window; but
  it carries an \<^verbatim>\<open>iat\<close> in the future, which jwt-go decodes into the embedded
  \<^verbatim>\<open>StandardClaims\<close> and checks itself: \<^verbatim>\<open>testToken\<close> neither accepts it nor fails
  with \<^verbatim>\<open>Claims are invalid.\<close>
\<close>

theorem future_iat_rejected_by_parser:
  "split_dot ''HS256.E.k'' = [''HS256'', ''E'', ''k''] \<and>
   json_Unmarshal_claims demo_lib (bytes_of ''E'') =
     Inr \<lparr>Issuer = ''trackit'', NotBefore = 1499996400, Expires = 1505184000, Subject = 42,
          Standard = zero_StandardClaims\<lparr>StdIssuedAt := 1600000000\<rparr>\<rparr> \<and>
   Verify demo_lib (SigningMethodHMAC ''HS256'' SHA256) (join_dot [''HS256'', ''E'']) ''k''
     (jwtSecret demo_cfg) = None \<and>
   areClaimsValid demo_cfg 1500000000
     \<lparr>Issuer = ''trackit'', NotBefore = 1499996400, Expires = 1505184000, Subject = 42,
      Standard = zero_StandardClaims\<lparr>StdIssuedAt := 1600000000\<rparr>\<rparr> \<and>
   testToken demo_lib demo_cfg demo_lookup 1500000000 1500000000 ''HS256.E.k'' =
     (zero_User,
      Some (ValidationError [] (Some (ErrorString ''Token used before issued''))
              {ValidationErrorIssuedAt}))"
proof (intro conjI)
  show "split_dot ''HS256.E.k'' = [''HS256'', ''E'', ''k'']" by simp
  show "json_Unmarshal_claims demo_lib (bytes_of ''E'') =
     Inr \<lparr>Issuer = ''trackit'', NotBefore = 1499996400, Expires = 1505184000, Subject = 42,
          Standard = zero_StandardClaims\<lparr>StdIssuedAt := 1600000000\<rparr>\<rparr>"
    by code_simp
  show "Verify demo_lib (SigningMethodHMAC ''HS256'' SHA256) (join_dot [''HS256'', ''E'']) ''k''
     (jwtSecret demo_cfg) = None"
    by code_simp
  show "areClaimsValid demo_cfg 1500000000
     \<lparr>Issuer = ''trackit'', NotBefore = 1499996400, Expires = 1505184000, Subject = 42,
      Standard = zero_StandardClaims\<lparr>StdIssuedAt := 1600000000\<rparr>\<rparr>"
    by code_simp
  show "testToken demo_lib demo_cfg demo_lookup 1500000000 1500000000 ''HS256.E.k'' =
     (zero_User,
      Some (ValidationError [] (Some (ErrorString ''Token used before issued''))
              {ValidationErrorIssuedAt}))"
    by code_simp
qed

section \<open>Passwords and their hashes\<close>

text \<open>
  The encoded hash that \<^verbatim>\<open>Hash\<close> writes, for a salt of 22 and a digest of 31 bytes,
  and its decoding by \<^verbatim>\<open>newFromHash\<close>.
\<close>

lemma bytes_of_string_of [simp]: "bytes_of (string_of b) = b"
proof -
  have "(of_char (char_of (unat w)) :: byte) = w" for w :: byte
  proof -
    have "unat w < 256" using unsigned_less [of w, where ?'a = nat] by simp
    then have "(of_char (char_of (unat w)) :: nat) = unat w"
      by simp
    then have "of_nat (of_char (char_of (unat w)) :: nat) = (of_nat (unat w) :: byte)"
      by simp
    then show ?thesis by (simp only: of_nat_of_char) simp
  qed
  then show ?thesis by (simp add: string_of_def bytes_of_def o_def)
qed

lemma replicate_60: "replicate 60 (0::byte) =
  [0,0,0,0,0,0,0,0,0,0, 0,0,0,0,0,0,0,0,0,0, 0,0,0,0,0,0,0,0,0,0,
   0,0,0,0,0,0,0,0,0,0, 0,0,0,0,0,0,0,0,0,0, 0,0,0,0,0,0,0,0,0,0]"
  by code_simp
















end
